theory Spec2Isabelle
  imports Main "HOL-Library.Sublist"
begin

section \<open>JavaScript values\<close>

text \<open>
  The values the filter compiler handles are the ones \<open>JSON.parse\<close> produces, together
  with \<open>undefined\<close> (what reading an absent property gives). An object is kept as the
  list of its own properties in the order \<open>Object.keys\<close> enumerates them. A string is
  a list of characters with codes below 256.

  A number is kept as the text that the conversion of numbers to strings gives for it
  (\<open>1\<close>, \<open>-2.5\<close>, \<open>1e+21\<close>, \<open>NaN\<close>): printing it, testing it for zero and telling it
  from the other kinds of value is all the program does with a number, and two numbers
  with the same text (\<open>0\<close> and \<open>-0\<close>) are not told apart by any of these.
\<close>

type_synonym number = string

datatype jsvalue =
    Undefined
  | Null
  | Bool bool
  | Num number
  | Str string
  | Arr "jsvalue list"
  | Obj "(string \<times> jsvalue) list"

text \<open>
  A thrown exception is a value: \<open>Error msg\<close> for \<open>throw new Error(msg)\<close>,
  \<open>TypeError\<close> for a call of a method the receiver does not have or a property read
  on \<open>undefined\<close>, \<open>SyntaxError\<close> for text that \<open>JSON.parse\<close> refuses.
\<close>

datatype error = Error string | TypeError | SyntaxError

text \<open>The decimal text of an array index, as \<open>Object.keys\<close> gives it for an array.\<close>

definition digitChar :: "nat \<Rightarrow> char" where
  "digitChar n = ''0123456789'' ! n"

fun natToString :: "nat \<Rightarrow> string" where
  "natToString n = (if n < 10 then [digitChar n] else natToString (n div 10) @ [digitChar (n mod 10)])"

text \<open>\<open>Array.prototype.join\<close> on a list of strings.\<close>

fun join :: "string \<Rightarrow> string list \<Rightarrow> string" where
  "join sep [] = []"
| "join sep [x] = x"
| "join sep (x # y # ys) = x @ sep @ join sep (y # ys)"

text \<open>
  The conversion to a string that \<open>+\<close> applies to a non-string operand. An array prints
  its elements joined by commas, \<open>null\<close> and \<open>undefined\<close> elements as nothing; an object
  prints as \<open>[object Object]\<close>.
\<close>

fun toString :: "jsvalue \<Rightarrow> string" where
  "toString Undefined = ''undefined''"
| "toString Null = ''null''"
| "toString (Bool b) = (if b then ''true'' else ''false'')"
| "toString (Num n) = n"
| "toString (Str s) = s"
| "toString (Arr xs) =
     join '','' (map (\<lambda>x. if x = Null \<or> x = Undefined then [] else toString x) xs)"
| "toString (Obj kvs) = ''[object Object]''"

text \<open>
  What \<open>!v\<close> negates: \<open>undefined\<close>, \<open>null\<close>, \<open>false\<close>, \<open>0\<close>, \<open>NaN\<close> and \<open>""\<close> are
  falsy.
\<close>

fun truthy :: "jsvalue \<Rightarrow> bool" where
  "truthy Undefined = False"
| "truthy Null = False"
| "truthy (Bool b) = b"
| "truthy (Num n) = (n \<noteq> ''0'' \<and> n \<noteq> ''NaN'')"
| "truthy (Str s) = (s \<noteq> [])"
| "truthy (Arr xs) = True"
| "truthy (Obj kvs) = True"

text \<open>The tests of underscore: \<open>_.isArray\<close> and \<open>_.isObject\<close> (true of arrays too).\<close>

fun isArray :: "jsvalue \<Rightarrow> bool" where
  "isArray (Arr xs) = True"
| "isArray v = False"

fun isObject :: "jsvalue \<Rightarrow> bool" where
  "isObject (Arr xs) = True"
| "isObject (Obj kvs) = True"
| "isObject v = False"

text \<open>
  A property read \<open>o.name\<close> on a parsed value: the own property of an object, else
  \<open>undefined\<close>. (The names read this way, \<open>EXCLUSIVE\<close> and \<open>value\<close>, are not members
  of \<open>Object.prototype\<close> or \<open>Array.prototype\<close>.)
\<close>

fun getProperty :: "jsvalue \<Rightarrow> string \<Rightarrow> jsvalue" where
  "getProperty (Obj kvs) name = (case map_of kvs name of Some v \<Rightarrow> v | None \<Rightarrow> Undefined)"
| "getProperty v name = Undefined"

text \<open>
  \<open>Object.keys\<close> and the (value, key) pairs \<open>_.map\<close> visits: the own properties of an
  object, the indices of an array.
\<close>

fun entries :: "jsvalue \<Rightarrow> (string \<times> jsvalue) list" where
  "entries (Obj kvs) = kvs"
| "entries (Arr xs) = zip (map natToString [0..<length xs]) xs"
| "entries v = []"

definition keys :: "jsvalue \<Rightarrow> string list" where
  "keys v = map fst (entries v)"

text \<open>
  A lookup \<open>TABLE[key]\<close> in one of the two constant tables, which are object literals:
  a key of the literal gives its entry; a key that names a member of
  \<open>Object.prototype\<close> gives that inherited member, which is truthy and has none of the
  entry's fields; any other key gives \<open>undefined\<close>.
\<close>

datatype 'a property = Own 'a | Inherited | Absent

definition objectPrototypeMembers :: "string list" where
  "objectPrototypeMembers =
     [''constructor'', ''toString'', ''toLocaleString'', ''valueOf'', ''hasOwnProperty'',
      ''isPrototypeOf'', ''propertyIsEnumerable'', ''__proto__'', ''__defineGetter__'',
      ''__defineSetter__'', ''__lookupGetter__'', ''__lookupSetter__'']"

definition lookupTable :: "(string \<times> 'a) list \<Rightarrow> string \<Rightarrow> 'a property" where
  "lookupTable table key =
     (case map_of table key of
        Some entry \<Rightarrow> Own entry
      | None \<Rightarrow> if key \<in> set objectPrototypeMembers then Inherited else Absent)"

section \<open>Constants\<close>

text \<open>\<open>MODEL_MAPPING\<close>: the physical table name of each short model name.\<close>

definition MODEL_MAPPING :: "(string \<times> string) list" where
  "MODEL_MAPPING = [(''plot'', ''treemap_plot''), (''tree'', ''treemap_tree'')]"

text \<open>
  What \<open>'"' + model + '"'\<close> prints when \<open>model\<close> is a member of \<open>Object.prototype\<close>
  instead of a table name: the prototype object itself for \<open>__proto__\<close>, a native
  function otherwise.
\<close>

definition inheritedToString :: "string \<Rightarrow> string" where
  "inheritedToString name =
     (if name = ''__proto__'' then ''[object Object]''
      else ''function '' @ (if name = ''constructor'' then ''Object'' else name)
           @ ''() { [native code] }'')"

text \<open>\<open>DATETIME_FORMATS\<close>: the format strings handed to the date library.\<close>

record datetimeFormats =
  full :: string
  date :: string
  time :: string

definition DATETIME_FORMATS :: datetimeFormats where
  "DATETIME_FORMATS = \<lparr> full = ''YYYY-MM-DD HH:mm:ss'', date = ''YYYY-MM-DD'', time = ''HH:mm:ss'' \<rparr>"

section \<open>Sanitizer\<close>

text \<open>
  \<open>value.replace(/;[\w\s;]*$/, '')\<close>: the match starts at the leftmost \<open>;\<close> from
  which only word characters, white space and \<open>;\<close> follow up to the end of the
  string, and it is removed; with no such \<open>;\<close> the string is returned as it is.
\<close>

definition wordChars :: string where
  "wordChars = ''abcdefghijklmnopqrstuvwxyzABCDEFGHIJKLMNOPQRSTUVWXYZ0123456789_''"

definition spaceChars :: string where
  "spaceChars = [CHR 0x09, CHR 0x0A, CHR 0x0B, CHR 0x0C, CHR 0x0D, CHR 0x20, CHR 0xA0]"

definition trailingChar :: "char \<Rightarrow> bool" where
  "trailingChar c \<longleftrightarrow> c \<in> set wordChars \<or> c \<in> set spaceChars \<or> c = CHR '';''"

fun sanitizeSqlString :: "string \<Rightarrow> string" where
  "sanitizeSqlString [] = []"
| "sanitizeSqlString (c # cs) =
     (if c = CHR '';'' \<and> list_all trailingChar cs then [] else c # sanitizeSqlString cs)"

section \<open>Field/column resolver\<close>

text \<open>\<open>String.prototype.split\<close> with the separator \<open>'.'\<close>: the string is cut at every dot.\<close>

fun split :: "char \<Rightarrow> string \<Rightarrow> string list" where
  "split sep [] = [[]]"
| "split sep (c # cs) =
     (if c = sep then [] # split sep cs
      else (case split sep cs of p # ps \<Rightarrow> (c # p) # ps | [] \<Rightarrow> [[c]]))"

definition modelNameError :: "string \<Rightarrow> error" where
  "modelNameError name =
     Error (''The model name must be one of the following: ''
            @ join '', '' (map fst MODEL_MAPPING) @ ''. Not '' @ name)"

definition fieldNameError :: "string \<Rightarrow> error" where
  "fieldNameError fieldName =
     Error (''Field names in predicate objects should be of the form \"model.field\", not \"''
            @ fieldName @ ''\"'')"

definition fieldNameToColumnName :: "string \<Rightarrow> error + string" where
  "fieldNameToColumnName fieldName =
     (let modelAndColumn = split CHR ''.'' fieldName in
      if length modelAndColumn \<noteq> 2 then Inl (fieldNameError fieldName)
      else
        (case lookupTable MODEL_MAPPING (modelAndColumn ! 0) of
           Absent \<Rightarrow> Inl (modelNameError (modelAndColumn ! 0))
         | found \<Rightarrow>
             (let model = (case found of Own table \<Rightarrow> table
                                        | _ \<Rightarrow> inheritedToString (modelAndColumn ! 0));
                  column = sanitizeSqlString (modelAndColumn ! 1)
              in if lookupTable MODEL_MAPPING (modelAndColumn ! 0) = Absent
                 then Inl (modelNameError (modelAndColumn ! 0))
                 else Inr (''\"'' @ model @ ''\".\"'' @ column @ ''\"''))))"

section \<open>Value literal converter\<close>

text \<open>
  Modelled from the spec: the date library behind \<open>moment(value, format).isValid()\<close>
  and \<open>m.format(...)\<close> is not part of the sources. The specification says that only a
  full match of \<open>YYYY-MM-DD HH:mm:ss\<close> or \<open>YYYY-MM-DDTHH:mm:ss\<close> is a datetime, and that
  a datetime is printed back as its date part and its time part. It speaks of strings
  only: a value that is not a string is not taken as a datetime.
\<close>

text \<open>
  \<open>fullPattern\<close> is \<open>DATETIME_FORMATS.full\<close> token by token, with a blank or \<open>T\<close>
  between the date and the time.
\<close>

datatype token = Digit | Literally char | Separator

definition fullPattern :: "token list" where
  "fullPattern =
     [Digit, Digit, Digit, Digit, Literally CHR ''-'', Digit, Digit, Literally CHR ''-'',
      Digit, Digit, Separator, Digit, Digit, Literally CHR '':'', Digit, Digit,
      Literally CHR '':'', Digit, Digit]"

fun matchesToken :: "token \<Rightarrow> char \<Rightarrow> bool" where
  "matchesToken Digit c = (c \<in> set ''0123456789'')"
| "matchesToken (Literally l) c = (c = l)"
| "matchesToken Separator c = (c = CHR '' '' \<or> c = CHR ''T'')"

fun momentIsValid :: "jsvalue \<Rightarrow> bool" where
  "momentIsValid (Str s) = list_all2 matchesToken fullPattern s"
| "momentIsValid v = False"

definition momentFormatDate :: "string \<Rightarrow> string" where
  "momentFormatDate s = take 10 s"

definition momentFormatTime :: "string \<Rightarrow> string" where
  "momentFormatTime s = drop 11 s"

definition isDateTimeString :: "jsvalue \<Rightarrow> bool" where
  "isDateTimeString v = momentIsValid v"

text \<open>The one-character string holding a single quote.\<close>

abbreviation quote :: string where
  "quote \<equiv> [CHR 0x27]"

definition dateTimeStringToSqlValue :: "string \<Rightarrow> string" where
  "dateTimeStringToSqlValue dtString =
     ''(DATE '' @ quote @ momentFormatDate dtString @ quote @ '' + TIME '' @ quote
       @ momentFormatTime dtString @ quote @ '')''"

text \<open>
  \<open>String.prototype.replace\<close> with a string pattern: only the first occurrence of the
  pattern is replaced.
\<close>

fun replace :: "string \<Rightarrow> string \<Rightarrow> string \<Rightarrow> string" where
  "replace pat rep [] = (if pat = [] then rep else [])"
| "replace pat rep (c # cs) =
     (if prefix pat (c # cs) then rep @ drop (length pat) (c # cs)
      else c # replace pat rep cs)"

text \<open>A converted value is the number itself or a string of SQL.\<close>

datatype sqlValue = SqlNumber number | SqlString string

fun sqlValueToString :: "sqlValue \<Rightarrow> string" where
  "sqlValueToString (SqlNumber n) = n"
| "sqlValueToString (SqlString s) = s"

text \<open>
  The first equation is the branch of \<open>_.isNumber\<close>. In the last branch a value that
  is not a string has no \<open>replace\<close> method, and the call in \<open>sanitizeSqlString\<close> throws.
\<close>

fun convertValueToEscapedSqlLiteral :: "jsvalue \<Rightarrow> error + sqlValue" where
  "convertValueToEscapedSqlLiteral (Num n) = Inr (SqlNumber n)"
| "convertValueToEscapedSqlLiteral (Str s) =
     (if isDateTimeString (Str s) then Inr (SqlString (dateTimeStringToSqlValue s))
      else Inr (SqlString (quote @ replace quote (quote @ quote) (sanitizeSqlString s) @ quote)))"
| "convertValueToEscapedSqlLiteral v = Inl TypeError"

text \<open>\<open>_.map\<close> with a callback that may throw: the first exception ends the loop.\<close>

fun mapResult :: "('a \<Rightarrow> error + 'b) \<Rightarrow> 'a list \<Rightarrow> error + 'b list" where
  "mapResult f [] = Inr []"
| "mapResult f (x # xs) =
     (case f x of
        Inl e \<Rightarrow> Inl e
      | Inr y \<Rightarrow> (case mapResult f xs of Inl e \<Rightarrow> Inl e | Inr ys \<Rightarrow> Inr (y # ys)))"

definition convertValuesToEscapedSqlLiterals :: "jsvalue list \<Rightarrow> error + sqlValue list" where
  "convertValuesToEscapedSqlLiterals values = mapResult convertValueToEscapedSqlLiteral values"

fun convertArrayValueToEscapedSqlLiteral :: "jsvalue \<Rightarrow> error + sqlValue" where
  "convertArrayValueToEscapedSqlLiteral (Arr arrayValue) =
     (case convertValuesToEscapedSqlLiterals arrayValue of
        Inl e \<Rightarrow> Inl e
      | Inr literals \<Rightarrow>
          Inr (SqlString (''('' @ join '','' (map sqlValueToString literals) @ '')'')))"
| "convertArrayValueToEscapedSqlLiteral v =
     Inl (Error ''Non-array passed to convertArrayValueToEscapedSqlLiteral'')"

section \<open>Predicates\<close>

text \<open>
  \<open>PREDICATE_TYPES\<close>: for each predicate key the keys it combines with, its matcher,
  its exclusive matcher (only \<open>MIN\<close> and \<open>MAX\<close> have one) and its value converter.
\<close>

record predicateType =
  combinesWith :: "string list"
  matcher :: string
  exclusiveMatcher :: "string option"
  valueConverter :: "jsvalue \<Rightarrow> error + sqlValue"

definition PREDICATE_TYPES :: "(string \<times> predicateType) list" where
  "PREDICATE_TYPES =
     [(''IS'', \<lparr> combinesWith = [], matcher = ''='', exclusiveMatcher = None,
               valueConverter = convertValueToEscapedSqlLiteral \<rparr>),
      (''IN'', \<lparr> combinesWith = [], matcher = ''IN'', exclusiveMatcher = None,
               valueConverter = convertArrayValueToEscapedSqlLiteral \<rparr>),
      (''LIKE'', \<lparr> combinesWith = [], matcher = ''ILIKE'', exclusiveMatcher = None,
                 valueConverter = convertValueToEscapedSqlLiteral \<rparr>),
      (''MIN'', \<lparr> combinesWith = [''MAX''], matcher = ''>='', exclusiveMatcher = Some ''>'',
                valueConverter = convertValueToEscapedSqlLiteral \<rparr>),
      (''MAX'', \<lparr> combinesWith = [''MIN''], matcher = ''<='', exclusiveMatcher = Some ''<'',
                valueConverter = convertValueToEscapedSqlLiteral \<rparr>)]"

text \<open>
  The body of the loop of \<open>validatePredicate\<close> for one key. For an inherited member
  \<open>combinesWith\<close> is \<open>undefined\<close>: \<open>_.contains\<close> answers false, and building the
  message of the second error reads \<open>join\<close> of \<open>undefined\<close> and throws a TypeError.
\<close>

definition unknownKeyError :: "string \<Rightarrow> error" where
  "unknownKeyError key =
     Error (''Predicates support the following keys: ''
            @ join '','' (map fst PREDICATE_TYPES) @ '' not '' @ key)"

definition combinationError :: "string list \<Rightarrow> string \<Rightarrow> string list \<Rightarrow> error" where
  "combinationError ks key allowed =
     Error (''A predicate with keys '' @ join '','' ks
            @ '' is not valid because the predicate key '' @ key
            @ '' can only be combined with the following keys: '' @ join '','' allowed)"

definition validateKey :: "string list \<Rightarrow> string \<Rightarrow> error + unit" where
  "validateKey ks key =
     (case lookupTable PREDICATE_TYPES key of
        Absent \<Rightarrow> Inl (unknownKeyError key)
      | Inherited \<Rightarrow>
          if list_all (\<lambda>otherKey. key = otherKey) ks then Inr () else Inl TypeError
      | Own t \<Rightarrow>
          if list_all (\<lambda>otherKey. key = otherKey \<or> otherKey \<in> set (combinesWith t)) ks
          then Inr ()
          else Inl (combinationError ks key (combinesWith t)))"

text \<open>\<open>_.each\<close> with a callback that may throw: the first exception ends the loop.\<close>

fun eachResult :: "('a \<Rightarrow> error + unit) \<Rightarrow> 'a list \<Rightarrow> error + unit" where
  "eachResult f [] = Inr ()"
| "eachResult f (x # xs) = (case f x of Inl e \<Rightarrow> Inl e | Inr u \<Rightarrow> eachResult f xs)"

definition validatePredicate :: "jsvalue \<Rightarrow> error + unit" where
  "validatePredicate predicate =
     (if \<not> isObject predicate then Inl (Error ''Predicates must be objects'')
      else eachResult (validateKey (keys predicate)) (keys predicate))"

text \<open>
  A filter object is the pair of a matcher and a converted value. The matcher is
  \<open>undefined\<close> (\<open>None\<close>) when \<open>EXCLUSIVE\<close> is set on a key without an exclusive matcher.
  An \<open>undefined\<close> predicate type throws at the first field read, an inherited member
  at the call of its missing \<open>valueConverter\<close>.
\<close>

definition predicateValueAndTypeToFilterObject ::
    "jsvalue \<Rightarrow> string \<Rightarrow> error + (string option \<times> sqlValue)" where
  "predicateValueAndTypeToFilterObject predicateValue predicateType =
     (case lookupTable PREDICATE_TYPES predicateType of
        Absent \<Rightarrow> Inl TypeError
      | Inherited \<Rightarrow> Inl TypeError
      | Own t \<Rightarrow>
          (let (m, v) =
                 (if isObject predicateValue \<and> \<not> isArray predicateValue
                  then (if truthy (getProperty predicateValue ''EXCLUSIVE'')
                        then exclusiveMatcher t else Some (matcher t),
                        getProperty predicateValue ''value'')
                  else (Some (matcher t), predicateValue))
           in case valueConverter t v of
                Inl e \<Rightarrow> Inl e
              | Inr literal \<Rightarrow> Inr (m, literal)))"

text \<open>
  \<open>_.map\<close> walks the predicate as \<open>each\<close> does. A predicate that passes the validation
  has no key \<open>length\<close>, which is not a predicate key, so it is walked by its keys.
\<close>

definition predicateToFilterObjects :: "jsvalue \<Rightarrow> error + (string option \<times> sqlValue) list" where
  "predicateToFilterObjects predicate =
     (case validatePredicate predicate of
        Inl e \<Rightarrow> Inl e
      | Inr u \<Rightarrow>
          mapResult (\<lambda>(key, v). predicateValueAndTypeToFilterObject v key) (entries predicate))"

section \<open>Compilers\<close>

definition matcherToString :: "string option \<Rightarrow> string" where
  "matcherToString m = (case m of Some s \<Rightarrow> s | None \<Rightarrow> ''undefined'')"

definition fieldNameAndPredicateToSql :: "string \<Rightarrow> jsvalue \<Rightarrow> error + string" where
  "fieldNameAndPredicateToSql fieldName predicate =
     (case fieldNameToColumnName fieldName of
        Inl e \<Rightarrow> Inl e
      | Inr columnName \<Rightarrow>
          (case predicateToFilterObjects predicate of
             Inl e \<Rightarrow> Inl e
           | Inr filters \<Rightarrow>
               (let filterStatements =
                      map (\<lambda>(m, v). columnName @ '' '' @ matcherToString m @ '' ''
                                     @ sqlValueToString v) filters
                in Inr (''('' @ join '' AND '' filterStatements @ '')''))))"

text \<open>
  underscore is not part of the sources. Its \<open>each\<close> walks an object key by key, except
  that it takes an object with a number as own \<open>length\<close> for a list and walks it by
  index, from 0 up to that length. Its releases differ on which numbers count as a
  length (every number, or only those from 0 up to a bound), so this decision is a
  parameter \<open>lengthWalk\<close> of the model: for the number found as \<open>length\<close> it tells
  whether the object is walked by its keys after all, by index with no index below
  the length, or by index starting at 0.
\<close>

datatype walk = Keys | NoIndex | Indices

definition walkOf :: "(number \<Rightarrow> walk) \<Rightarrow> (string \<times> jsvalue) list \<Rightarrow> walk" where
  "walkOf lengthWalk o' =
     (case map_of o' ''length'' of Some (Num n) \<Rightarrow> lengthWalk n | _ \<Rightarrow> Keys)"

text \<open>
  The test of the releases that take every number for a length,
  \<open>obj.length === +obj.length\<close> with the loop \<open>for (i = 0; i < length; i++)\<close>: only
  \<open>NaN\<close> is not equal to itself, and no index is below 0 or a negative number.
\<close>

definition anyNumberIsLength :: "number \<Rightarrow> walk" where
  "anyNumberIsLength n =
     (if n = ''NaN'' then Keys
      else if n = ''0'' \<or> take 1 n = ''-'' then NoIndex
      else Indices)"

text \<open>
  \<open>objectToSql\<close> visits the fields in key order and stops at the first exception. In a
  walk by index the callback is given the index, a number, as \<open>fieldName\<close>: the call of
  its \<open>split\<close> in \<open>fieldNameToColumnName\<close> throws at index 0, and with no index at all
  the list of statements stays empty.
\<close>

definition objectToSql :: "(number \<Rightarrow> walk) \<Rightarrow> (string \<times> jsvalue) list \<Rightarrow> error + string" where
  "objectToSql lengthWalk o' =
     (case walkOf lengthWalk o' of
        Keys \<Rightarrow>
          (case mapResult
                  (\<lambda>(fieldName, valueOrPredicate).
                      let predicate = (if \<not> isObject valueOrPredicate
                                       then Obj [(''IS'', valueOrPredicate)]
                                       else valueOrPredicate)
                      in fieldNameAndPredicateToSql fieldName predicate) o' of
             Inl e \<Rightarrow> Inl e
           | Inr statements \<Rightarrow> Inr (join '' AND '' statements))
      | NoIndex \<Rightarrow> Inr (join '' AND '' [])
      | Indices \<Rightarrow> Inl TypeError)"

text \<open>
  \<open>filterToSql\<close> and \<open>arrayToSql\<close> call each other; \<open>filtersToSql\<close> is the loop of
  \<open>arrayToSql\<close> over the elements after the first.
\<close>

fun filterToSql :: "(number \<Rightarrow> walk) \<Rightarrow> jsvalue \<Rightarrow> error + string"
  and arrayToSql :: "(number \<Rightarrow> walk) \<Rightarrow> jsvalue list \<Rightarrow> error + string"
  and filtersToSql :: "(number \<Rightarrow> walk) \<Rightarrow> jsvalue list \<Rightarrow> error + string list" where
  "filterToSql lengthWalk (Arr a) = arrayToSql lengthWalk a"
| "filterToSql lengthWalk (Obj kvs) = objectToSql lengthWalk kvs"
| "filterToSql lengthWalk f = Inl (Error ''A filter must be an Object or an Array'')"
| "arrayToSql lengthWalk [] = Inl (Error ''An empty array is not a valid combinator'')"
| "arrayToSql lengthWalk (op # filters) =
     (if op \<noteq> Str ''AND'' \<and> op \<noteq> Str ''OR''
      then Inl (Error (''The first element of a combinator array must be \"AND\" or \"OR\", not ''
                       @ toString op))
      else (case filtersToSql lengthWalk filters of
              Inl e \<Rightarrow> Inl e
            | Inr statements \<Rightarrow>
                Inr (''('' @ join ('' '' @ toString op @ '' '') statements @ '')'')))"
| "filtersToSql lengthWalk [] = Inr []"
| "filtersToSql lengthWalk (f # fs) =
     (case filterToSql lengthWalk f of
        Inl e \<Rightarrow> Inl e
      | Inr statement \<Rightarrow>
          (case filtersToSql lengthWalk fs of
             Inl e \<Rightarrow> Inl e
           | Inr statements \<Rightarrow> Inr (statement # statements)))"

section \<open>Entry points\<close>

text \<open>
  The exported function of \<open>filterStringToSql.js\<close>. \<open>JSON.parse\<close> is a parameter: it is
  given the argument converted to a string, and returns the parsed value or throws.
\<close>

definition filterStringToSql ::
    "(number \<Rightarrow> walk) \<Rightarrow> (string \<Rightarrow> error + jsvalue) \<Rightarrow> jsvalue \<Rightarrow> error + string" where
  "filterStringToSql lengthWalk parse s =
     (if \<not> truthy s then Inr []
      else (case parse (toString s) of
              Inl e \<Rightarrow> Inl e
            | Inr f \<Rightarrow> filterToSql lengthWalk f))"

text \<open>
  The exported function that chooses the tables to join. The two table lists come from
  the configuration file, which is a parameter. \<open>s.match(/(tree\.|species\.)/)\<close> looks
  for one of the two words at any position of the text; a truthy argument that is
  not a string has no \<open>match\<close> method.
\<close>

record 'a tables =
  tree :: 'a
  plot :: 'a

fun matchTreeOrSpecies :: "string \<Rightarrow> bool" where
  "matchTreeOrSpecies [] = False"
| "matchTreeOrSpecies (c # cs) =
     (prefix ''tree.'' (c # cs) \<or> prefix ''species.'' (c # cs) \<or> matchTreeOrSpecies cs)"

definition resolveFilterTables :: "'a tables \<Rightarrow> jsvalue \<Rightarrow> error + 'a" where
  "resolveFilterTables config s =
     (if \<not> truthy s then
        Inl (Error ''A null, undefined, or empty filter string cannot be converted to SQL'')
      else (case s of
              Str text \<Rightarrow> if matchTreeOrSpecies text then Inr (tree config) else Inr (plot config)
            | _ \<Rightarrow> Inl TypeError))"

section \<open>Reference notions used by the properties\<close>

text \<open>
  The escaping that the comment above \<open>convertValueToEscapedSqlLiteral\<close> describes:
  every single quote of the string becomes a pair of single quotes.
\<close>

definition doubleQuotes :: "string \<Rightarrow> string" where
  "doubleQuotes s = concat (map (\<lambda>c. if c = CHR 0x27 then [c, c] else [c]) s)"

text \<open>A bare date: the shape of \<open>DATETIME_FORMATS.date\<close>, \<open>YYYY-MM-DD\<close>.\<close>

definition datePattern :: "token list" where
  "datePattern =
     [Digit, Digit, Digit, Digit, Literally CHR ''-'', Digit, Digit, Literally CHR ''-'',
      Digit, Digit]"

text \<open>
  The predicate keys and the pairs of distinct keys that may appear together, as the
  specification lists them.
\<close>

definition specSupportedKey :: "string \<Rightarrow> bool" where
  "specSupportedKey k \<longleftrightarrow> k \<in> {''IS'', ''IN'', ''LIKE'', ''MIN'', ''MAX''}"

definition specCombinable :: "string \<Rightarrow> string \<Rightarrow> bool" where
  "specCombinable k k' \<longleftrightarrow> (k = ''MIN'' \<and> k' = ''MAX'') \<or> (k = ''MAX'' \<and> k' = ''MIN'')"

section \<open>Auxiliary facts\<close>

lemma sanitize_no_semicolon: "CHR '';'' \<notin> set s \<Longrightarrow> sanitizeSqlString s = s"
  by (induction s) auto

lemma sanitize_cut:
  "CHR '';'' \<notin> set p \<Longrightarrow> list_all trailingChar r \<Longrightarrow> sanitizeSqlString (p @ CHR '';'' # r) = p"
  by (induction p) auto

lemma trailingChar_semicolon: "trailingChar CHR '';''"
  by (simp add: trailingChar_def)

lemma sanitize_keeps_other:
  "\<not> trailingChar c \<Longrightarrow> sanitizeSqlString (a @ c # b) = a @ c # sanitizeSqlString b"
  by (induction a) (auto simp: trailingChar_semicolon)

lemma replace_absent: "c \<notin> set s \<Longrightarrow> replace [c] rep s = s"
  by (induction s) auto

lemma matches_avoid:
  "list_all2 matchesToken pat s \<Longrightarrow> \<forall>t\<in>set pat. \<not> matchesToken t c \<Longrightarrow> c \<notin> set s"
  by (induction pat s rule: list_all2_induct) auto

lemma length_split: "length (split c s) = Suc (count_list s c)"
  by (induction s) (auto split: list.splits)

lemma datePattern_avoids:
  "\<forall>t\<in>set datePattern. \<not> matchesToken t (CHR '';'')"
  "\<forall>t\<in>set datePattern. \<not> matchesToken t (CHR 0x27)"
  by (simp_all add: datePattern_def)

lemma validate_single_MIN: "validatePredicate (Obj [(''MIN'', v)]) = Inr ()"
  by (simp add: validatePredicate_def keys_def validateKey_def lookupTable_def PREDICATE_TYPES_def)

lemma lookup_MIN:
  "lookupTable PREDICATE_TYPES ''MIN'' =
     Own \<lparr> combinesWith = [''MAX''], matcher = ''>='', exclusiveMatcher = Some ''>'',
           valueConverter = convertValueToEscapedSqlLiteral \<rparr>"
  by (simp add: lookupTable_def PREDICATE_TYPES_def)

lemma column_tree_created:
  "fieldNameToColumnName ''tree.created'' = Inr ''\"treemap_tree\".\"created\"''"
  by (simp add: fieldNameToColumnName_def lookupTable_def MODEL_MAPPING_def)

lemma error_messages_differ: "modelNameError m \<noteq> fieldNameError n"
  by (simp add: modelNameError_def fieldNameError_def)

lemma split_two:
  "sep \<notin> set m \<Longrightarrow> sep \<notin> set c \<Longrightarrow> split sep (m @ sep # c) = [m, c]"
proof (induction m)
  case Nil
  have "split sep c = [c]" using Nil by (induction c) auto
  then show ?case by simp
next
  case (Cons a m)
  then show ?case by auto
qed

lemma fieldName_resolves:
  assumes "CHR ''.'' \<notin> set m" and "CHR ''.'' \<notin> set c" and "map_of MODEL_MAPPING m = Some t"
  shows "fieldNameToColumnName (m @ CHR ''.'' # c) =
           Inr (''\"'' @ t @ ''\".\"'' @ sanitizeSqlString c @ ''\"'')"
  using assms by (simp add: fieldNameToColumnName_def split_two lookupTable_def)

lemma lookup_IS:
  "lookupTable PREDICATE_TYPES ''IS'' =
     Own \<lparr> combinesWith = [], matcher = ''='', exclusiveMatcher = None,
           valueConverter = convertValueToEscapedSqlLiteral \<rparr>"
  by (simp add: lookupTable_def PREDICATE_TYPES_def)

lemma validate_single_IS: "validatePredicate (Obj [(''IS'', v)]) = Inr ()"
  by (simp add: validatePredicate_def keys_def validateKey_def lookupTable_def PREDICATE_TYPES_def)

lemma eachResult_ok: "(eachResult f xs = Inr ()) = (\<forall>x\<in>set xs. f x = Inr ())"
  by (induction xs) (auto split: sum.splits)

lemma lookup_predicate_absent:
  "k \<notin> set objectPrototypeMembers \<Longrightarrow> \<not> specSupportedKey k \<Longrightarrow>
     lookupTable PREDICATE_TYPES k = Absent"
  by (simp add: lookupTable_def PREDICATE_TYPES_def specSupportedKey_def)

lemma validateKey_ok:
  assumes "k \<notin> set objectPrototypeMembers"
  shows "(validateKey ks k = Inr ()) =
           (specSupportedKey k \<and> (\<forall>k'\<in>set ks. k \<noteq> k' \<longrightarrow> specCombinable k k'))"
proof (cases "specSupportedKey k")
  case False
  then show ?thesis
    using assms by (simp add: validateKey_def lookup_predicate_absent)
next
  case True
  then consider "k = ''IS''" | "k = ''IN''" | "k = ''LIKE''" | "k = ''MIN''" | "k = ''MAX''"
    by (auto simp: specSupportedKey_def)
  then show ?thesis
  proof cases
    case 1
    then show ?thesis
      using True by (auto simp: validateKey_def lookupTable_def PREDICATE_TYPES_def
          specCombinable_def list_all_iff)
  next
    case 2
    then show ?thesis
      using True by (auto simp: validateKey_def lookupTable_def PREDICATE_TYPES_def
          specCombinable_def list_all_iff)
  next
    case 3
    then show ?thesis
      using True by (auto simp: validateKey_def lookupTable_def PREDICATE_TYPES_def
          specCombinable_def list_all_iff)
  next
    case 4
    then show ?thesis
      using True by (auto simp: validateKey_def lookupTable_def PREDICATE_TYPES_def
          specCombinable_def list_all_iff)
  next
    case 5
    then show ?thesis
      using True by (auto simp: validateKey_def lookupTable_def PREDICATE_TYPES_def
          specCombinable_def list_all_iff)
  qed
qed

lemma supported_first_key_with_unknown_key:
  assumes "specSupportedKey k" and "\<not> specSupportedKey u" and "u \<in> set (map fst rest)"
  shows "\<exists>allowed. validatePredicate (Obj ((k, v) # rest)) =
           Inl (combinationError (k # map fst rest) k allowed)"
proof -
  from assms(1) consider "k = ''IS''" | "k = ''IN''" | "k = ''LIKE''" | "k = ''MIN''" | "k = ''MAX''"
    by (auto simp: specSupportedKey_def)
  then show ?thesis
  proof cases
    case 1
    then show ?thesis using assms(2,3)
      by (auto simp: validatePredicate_def keys_def validateKey_def lookupTable_def
          PREDICATE_TYPES_def list_all_iff specSupportedKey_def)
  next
    case 2
    then show ?thesis using assms(2,3)
      by (auto simp: validatePredicate_def keys_def validateKey_def lookupTable_def
          PREDICATE_TYPES_def list_all_iff specSupportedKey_def)
  next
    case 3
    then show ?thesis using assms(2,3)
      by (auto simp: validatePredicate_def keys_def validateKey_def lookupTable_def
          PREDICATE_TYPES_def list_all_iff specSupportedKey_def)
  next
    case 4
    then show ?thesis using assms(2,3)
      by (auto simp: validatePredicate_def keys_def validateKey_def lookupTable_def
          PREDICATE_TYPES_def list_all_iff specSupportedKey_def)
  next
    case 5
    then show ?thesis using assms(2,3)
      by (auto simp: validatePredicate_def keys_def validateKey_def lookupTable_def
          PREDICATE_TYPES_def list_all_iff specSupportedKey_def)
  qed
qed

text \<open>A field name with a dot is not \<open>length\<close>: the object that holds it alone is walked by key.\<close>

lemma dotted_key_not_length: "m @ CHR ''.'' # f \<noteq> ''length''"
proof
  assume eq: "m @ CHR ''.'' # f = ''length''"
  have "CHR ''.'' \<in> set (m @ CHR ''.'' # f)" by simp
  then have "CHR ''.'' \<in> set ''length''" unfolding eq .
  then show False by simp
qed

lemma walkOf_other_key: "k \<noteq> ''length'' \<Longrightarrow> walkOf lengthWalk [(k, v)] = Keys"
  by (simp add: walkOf_def)

lemma walkOf_dotted_key: "walkOf lengthWalk [(m @ CHR ''.'' # f, v)] = Keys"
  by (rule walkOf_other_key) (rule dotted_key_not_length)

lemma walkOf_empty: "walkOf lengthWalk [] = Keys"
  by (simp add: walkOf_def)

text \<open>A predicate that passes the validation has no key \<open>length\<close>.\<close>

lemma validated_predicate_has_no_length:
  assumes "validatePredicate (Obj kvs) = Inr ()"
  shows "map_of kvs ''length'' = None"
proof (rule ccontr)
  assume "map_of kvs ''length'' \<noteq> None"
  then obtain v where "map_of kvs ''length'' = Some v" by blast
  then have "(''length'', v) \<in> set kvs" by (rule map_of_SomeD)
  moreover have "\<forall>x\<in>set kvs. validateKey (map fst kvs) (fst x) = Inr ()"
    using assms by (simp add: validatePredicate_def keys_def eachResult_ok)
  ultimately have "validateKey (map fst kvs) (fst (''length'', v)) = Inr ()" by blast
  then show False
    by (simp add: validateKey_def lookupTable_def PREDICATE_TYPES_def objectPrototypeMembers_def)
qed

lemma fieldNameAndPredicateToSql_parens:
  "fieldNameAndPredicateToSql k p = Inr C \<Longrightarrow> \<exists>X. C = ''('' @ X @ '')''"
  by (auto simp: fieldNameAndPredicateToSql_def split: sum.splits)

lemma single_field_parens:
  "k \<noteq> ''length'' \<Longrightarrow> filterToSql lengthWalk (Obj [(k, v)]) = Inr C \<Longrightarrow>
     \<exists>X. C = ''('' @ X @ '')''"
  by (auto simp: objectToSql_def walkOf_other_key Let_def split: sum.splits if_splits
      dest: fieldNameAndPredicateToSql_parens)

lemma arrayToSql_parens:
  "filterToSql lengthWalk (Arr a) = Inr C \<Longrightarrow> \<exists>X. C = ''('' @ X @ '')''"
  by (cases a) (auto split: sum.splits if_splits)

lemma matchTreeOrSpecies_sublist:
  "matchTreeOrSpecies s \<longleftrightarrow> sublist ''tree.'' s \<or> sublist ''species.'' s"
  by (induction s) (auto simp: sublist_Cons_right)

section \<open>Value literals\<close>

text \<open>
  C1. The claim: a plain string value is wrapped in single quotes and every single quote
  inside it is doubled. The converter calls \<open>replace\<close> with a string pattern, which
  replaces the first single quote only: for the value \<open>a'b'c\<close> the literal is
  \<open>'a''b'c'\<close>, with the second quote left single, and not the fully doubled
  \<open>'a''b''c'\<close>.
\<close>

theorem convertValue_doubles_first_quote_only:
  "convertValueToEscapedSqlLiteral (Str ''a'b'c'') =
      Inr (SqlString (quote @ ''a'' @ quote @ quote @ ''b'c'' @ quote))
   \<and> convertValueToEscapedSqlLiteral (Str ''a'b'c'') \<noteq>
      Inr (SqlString (quote @ doubleQuotes ''a'b'c'' @ quote))"
  by (simp add: isDateTimeString_def fullPattern_def doubleQuotes_def)

text \<open>
  C2, as stated: everything from the first \<open>;\<close> of a string value on is removed, whatever
  follows. It fails when a character outside the class of the sanitizer's pattern
  follows: the value \<open>x; DROP TABLE treemap_tree; --\<close> is left whole by the sanitizer
  and compiled whole.
\<close>

theorem sanitizer_keeps_statement_with_other_characters:
  "sanitizeSqlString ''x; DROP TABLE treemap_tree; --'' = ''x; DROP TABLE treemap_tree; --''
   \<and> convertValueToEscapedSqlLiteral (Str ''x; DROP TABLE treemap_tree; --'') =
      Inr (SqlString (quote @ ''x; DROP TABLE treemap_tree; --'' @ quote))"
  by (simp add: isDateTimeString_def fullPattern_def trailingChar_def wordChars_def spaceChars_def)

text \<open>
  C2, amended. The sanitizer keeps a string up to and including every character that is
  not a word character, white space or \<open>;\<close>, whatever \<open>;\<close> comes before it; when only
  word characters, white space and \<open>;\<close> follow the first \<open>;\<close> of a string, it returns the
  prefix before that \<open>;\<close>; a string without \<open>;\<close> is returned as it is. A string value
  that is not recognized as a datetime is compiled to a literal built from the
  sanitized string alone: when only word characters, white space and \<open>;\<close> follow its
  first \<open>;\<close>, from the prefix before that \<open>;\<close>.
\<close>

theorem sanitizer_cuts_trailing_statement:
  "(CHR '';'' \<notin> set p \<and> list_all trailingChar r \<longrightarrow> sanitizeSqlString (p @ CHR '';'' # r) = p)
   \<and> (\<not> trailingChar c \<longrightarrow> sanitizeSqlString (a @ c # b) = a @ c # sanitizeSqlString b)
   \<and> (CHR '';'' \<notin> set s \<longrightarrow> sanitizeSqlString s = s)
   \<and> (\<not> isDateTimeString (Str s) \<longrightarrow>
        convertValueToEscapedSqlLiteral (Str s) =
          Inr (SqlString (quote @ replace quote (quote @ quote) (sanitizeSqlString s) @ quote)))
   \<and> (CHR '';'' \<notin> set p \<and> list_all trailingChar r \<and> \<not> isDateTimeString (Str (p @ CHR '';'' # r)) \<longrightarrow>
        convertValueToEscapedSqlLiteral (Str (p @ CHR '';'' # r)) =
          Inr (SqlString (quote @ replace quote (quote @ quote) p @ quote)))"
  by (simp add: sanitize_cut sanitize_keeps_other sanitize_no_semicolon)

theorem sanitizer_cuts_trailing_statement_witness:
  "CHR '';'' \<notin> set ''1'' \<and> list_all trailingChar '' SELECT 1; DROP TABLE treemap_tree;''
   \<and> \<not> isDateTimeString (Str ''1; SELECT 1; DROP TABLE treemap_tree;'')
   \<and> sanitizeSqlString ''1; SELECT 1; DROP TABLE treemap_tree;'' = ''1''
   \<and> convertValueToEscapedSqlLiteral (Str ''1; SELECT 1; DROP TABLE treemap_tree;'') =
       Inr (SqlString (quote @ ''1'' @ quote))
   \<and> \<not> trailingChar CHR ''-''
   \<and> sanitizeSqlString ''x; DROP TABLE treemap_tree; -- a; b'' = ''x; DROP TABLE treemap_tree; -- a''
   \<and> CHR '';'' \<notin> set ''1234 Market St'' \<and> \<not> isDateTimeString (Str ''1234 Market St'')
   \<and> sanitizeSqlString ''1234 Market St'' = ''1234 Market St''
   \<and> convertValueToEscapedSqlLiteral (Str ''1234 Market St'') =
       Inr (SqlString (quote @ ''1234 Market St'' @ quote))"
proof -
  note th = sanitizer_cuts_trailing_statement
    [of "''1''" "'' SELECT 1; DROP TABLE treemap_tree;''" "CHR ''-''"
        "''x; DROP TABLE treemap_tree; -''" "'' a; b''" "''1234 Market St''"]
  have h1: "CHR '';'' \<notin> set ''1''" by simp
  have h2: "list_all trailingChar '' SELECT 1; DROP TABLE treemap_tree;''"
    by (simp add: trailingChar_def wordChars_def spaceChars_def)
  have h3: "\<not> isDateTimeString (Str ''1; SELECT 1; DROP TABLE treemap_tree;'')"
    by (simp add: isDateTimeString_def fullPattern_def)
  have h4: "\<not> trailingChar CHR ''-''"
    by (simp add: trailingChar_def wordChars_def spaceChars_def)
  have h5: "CHR '';'' \<notin> set ''1234 Market St''" by simp
  have h6: "\<not> isDateTimeString (Str ''1234 Market St'')"
    by (simp add: isDateTimeString_def fullPattern_def)
  have c1: "sanitizeSqlString ''1; SELECT 1; DROP TABLE treemap_tree;'' = ''1''"
    using th [THEN conjunct1] h1 h2 by simp
  have c5: "convertValueToEscapedSqlLiteral (Str ''1; SELECT 1; DROP TABLE treemap_tree;'') =
       Inr (SqlString (quote @ ''1'' @ quote))"
    using th [THEN conjunct2, THEN conjunct2, THEN conjunct2, THEN conjunct2] h1 h2 h3 by simp
  have "list_all trailingChar '' a''" and "CHR '';'' \<notin> set '' a''"
    by (simp_all add: trailingChar_def wordChars_def spaceChars_def)
  then have tl: "sanitizeSqlString '' a; b'' = '' a''"
    by (simp add: trailingChar_def wordChars_def spaceChars_def)
  have c2: "sanitizeSqlString ''x; DROP TABLE treemap_tree; -- a; b'' =
              ''x; DROP TABLE treemap_tree; -- a''"
    using th [THEN conjunct2, THEN conjunct1] h4 tl by simp
  have c3: "sanitizeSqlString ''1234 Market St'' = ''1234 Market St''"
    using th [THEN conjunct2, THEN conjunct2, THEN conjunct1] h5 by blast
  have c4: "convertValueToEscapedSqlLiteral (Str ''1234 Market St'') =
       Inr (SqlString (quote @ ''1234 Market St'' @ quote))"
    using th [THEN conjunct2, THEN conjunct2, THEN conjunct2, THEN conjunct1] h6 c3
    by (simp del: convertValueToEscapedSqlLiteral.simps)
  show ?thesis using h1 h2 h3 h4 h5 h6 c1 c2 c3 c4 c5 by blast
qed

text \<open>
  C3. A string of the shape \<open>YYYY-MM-DD\<close>, a date with no time, is not recognized as a
  datetime and is compiled as a plain string literal; the filter
  \<open>{"tree.created": {"MIN": "2013-07-15"}}\<close> compiles to
  \<open>("treemap_tree"."created" >= '2013-07-15')\<close>.
\<close>

theorem bare_date_is_plain_string:
  assumes "list_all2 matchesToken datePattern s"
  shows "\<not> isDateTimeString (Str s)
       \<and> convertValueToEscapedSqlLiteral (Str s) = Inr (SqlString (quote @ s @ quote))
       \<and> filterToSql lengthWalk (Obj [(''tree.created'', Obj [(''MIN'', Str s)])]) =
           Inr (''(\"treemap_tree\".\"created\" >= '' @ quote @ s @ quote @ '')'')"
proof -
  have "length s = 10"
    using list_all2_lengthD [OF assms] by (simp add: datePattern_def)
  then have nodate: "\<not> isDateTimeString (Str s)"
    by (auto simp: isDateTimeString_def fullPattern_def dest: list_all2_lengthD)
  have "CHR '';'' \<notin> set s" and "CHR 0x27 \<notin> set s"
    using matches_avoid [OF assms datePattern_avoids(1)]
      matches_avoid [OF assms datePattern_avoids(2)] by simp_all
  then have lit: "convertValueToEscapedSqlLiteral (Str s) = Inr (SqlString (quote @ s @ quote))"
    using nodate by (simp add: sanitize_no_semicolon replace_absent)
  have "filterToSql lengthWalk (Obj [(''tree.created'', Obj [(''MIN'', Str s)])]) =
           Inr (''(\"treemap_tree\".\"created\" >= '' @ quote @ s @ quote @ '')'')"
    by (simp add: objectToSql_def walkOf_def fieldNameAndPredicateToSql_def column_tree_created
        predicateToFilterObjects_def validate_single_MIN
        predicateValueAndTypeToFilterObject_def lookup_MIN lit matcherToString_def
        del: convertValueToEscapedSqlLiteral.simps)
  with nodate lit show ?thesis by simp
qed

theorem bare_date_is_plain_string_witness:
  "list_all2 matchesToken datePattern ''2013-07-15''
   \<and> \<not> isDateTimeString (Str ''2013-07-15'')
   \<and> filterToSql anyNumberIsLength (Obj [(''tree.created'', Obj [(''MIN'', Str ''2013-07-15'')])]) =
           Inr ''(\"treemap_tree\".\"created\" >= '2013-07-15')''"
proof -
  have a: "list_all2 matchesToken datePattern ''2013-07-15''"
    by (simp add: datePattern_def)
  show ?thesis using a bare_date_is_plain_string [OF a, of anyNumberIsLength] by simp
qed

section \<open>Field names\<close>

text \<open>
  C4, as stated: the field name is split at its first dot only, so that \<open>plot.a.b\<close>
  resolves with the column \<open>a.b\<close>. The resolver splits at every dot and asks for
  exactly two parts: \<open>plot.a.b\<close> fails with the error about the form of field names.
\<close>

theorem fieldName_with_two_dots_is_rejected:
  "fieldNameToColumnName ''plot.a.b'' = Inl (fieldNameError ''plot.a.b'')"
  by (simp add: fieldNameToColumnName_def)

text \<open>
  C4, amended: the field name is split at every dot, and resolution fails with the error
  about the form of field names exactly when the name does not hold exactly one dot;
  a name \<open>m.c\<close> with one dot and a model \<open>m\<close> of \<open>MODEL_MAPPING\<close> resolves to the
  quoted table of \<open>m\<close> and the sanitized column \<open>c\<close>.
\<close>

theorem fieldName_needs_exactly_one_dot:
  "(fieldNameToColumnName n = Inl (fieldNameError n)) = (count_list n CHR ''.'' \<noteq> 1)
   \<and> (CHR ''.'' \<notin> set m \<and> CHR ''.'' \<notin> set c \<and> map_of MODEL_MAPPING m = Some t \<longrightarrow>
        fieldNameToColumnName (m @ CHR ''.'' # c) =
          Inr (''\"'' @ t @ ''\".\"'' @ sanitizeSqlString c @ ''\"''))"
proof -
  have "(fieldNameToColumnName n = Inl (fieldNameError n)) = (count_list n CHR ''.'' \<noteq> 1)"
    by (auto simp: fieldNameToColumnName_def length_split Let_def error_messages_differ
        split: property.splits)
  then show ?thesis using fieldName_resolves [of m c t] by blast
qed

theorem fieldName_needs_exactly_one_dot_witness:
  "count_list ''plot.a.b'' CHR ''.'' \<noteq> 1
   \<and> fieldNameToColumnName ''plot.a.b'' = Inl (fieldNameError ''plot.a.b'')
   \<and> CHR ''.'' \<notin> set ''tree'' \<and> CHR ''.'' \<notin> set ''height''
   \<and> map_of MODEL_MAPPING ''tree'' = Some ''treemap_tree''
   \<and> fieldNameToColumnName ''tree.height'' = Inr ''\"treemap_tree\".\"height\"''"
  using fieldName_needs_exactly_one_dot [of "''plot.a.b''" "''tree''" "''height''" "''treemap_tree''"]
  by (simp add: MODEL_MAPPING_def)

section \<open>Predicate sets\<close>

text \<open>
  C5, as stated: for every value \<open>v\<close> the shorthand \<open>{"m.f": v}\<close> and the explicit
  \<open>{"m.f": {"IS": v}}\<close> compile to the same output. The test that decides whether a
  value is shorthand, \<open>_.isObject\<close>, is true of arrays too: the empty array \<open>[]\<close> is not
  wrapped into \<open>{"IS": []}\<close> but taken as a predicate with no key, so the first filter
  compiles to \<open>()\<close>, and the second, which hands the array to the converter of \<open>IS\<close>,
  does not.
\<close>

theorem shorthand_differs_for_empty_array:
  "filterToSql anyNumberIsLength (Obj [(''tree.height'', Arr [])]) = Inr ''()''
   \<and> filterToSql anyNumberIsLength (Obj [(''tree.height'', Obj [(''IS'', Arr [])])]) \<noteq> Inr ''()''"
  by code_simp

text \<open>
  C5, amended: for every field name \<open>m.f\<close> and every value \<open>v\<close> that is neither an object
  nor an array, the shorthand \<open>{"m.f": v}\<close> and the explicit \<open>{"m.f": {"IS": v}}\<close>
  compile to the same result; for a model \<open>m\<close> of \<open>MODEL_MAPPING\<close> and a number \<open>n\<close>
  this result is \<open>("table"."f" = n)\<close>, with the number as it is printed.
\<close>

theorem shorthand_is_explicit_IS:
  "(\<not> isObject v \<longrightarrow>
      filterToSql lengthWalk (Obj [(m @ CHR ''.'' # f, v)]) =
      filterToSql lengthWalk (Obj [(m @ CHR ''.'' # f, Obj [(''IS'', v)])]))
   \<and> (CHR ''.'' \<notin> set m \<and> CHR ''.'' \<notin> set f \<and> map_of MODEL_MAPPING m = Some t \<longrightarrow>
      filterToSql lengthWalk (Obj [(m @ CHR ''.'' # f, Num n)]) =
        Inr (''(\"'' @ t @ ''\".\"'' @ sanitizeSqlString f @ ''\" = '' @ n @ '')''))"
proof -
  have a: "\<not> isObject v \<longrightarrow>
      filterToSql lengthWalk (Obj [(m @ CHR ''.'' # f, v)]) =
      filterToSql lengthWalk (Obj [(m @ CHR ''.'' # f, Obj [(''IS'', v)])])"
    by (simp add: objectToSql_def walkOf_dotted_key)
  have b: "filterToSql lengthWalk (Obj [(m @ CHR ''.'' # f, Num n)]) =
        Inr (''(\"'' @ t @ ''\".\"'' @ sanitizeSqlString f @ ''\" = '' @ n @ '')'')"
    if "CHR ''.'' \<notin> set m" "CHR ''.'' \<notin> set f" "map_of MODEL_MAPPING m = Some t"
    using fieldName_resolves [OF that]
    by (simp add: objectToSql_def walkOf_dotted_key fieldNameAndPredicateToSql_def
        predicateToFilterObjects_def validate_single_IS predicateValueAndTypeToFilterObject_def
        lookup_IS matcherToString_def)
  show ?thesis using a b by blast
qed

theorem shorthand_is_explicit_IS_witness:
  "\<not> isObject (Num ''1'') \<and> CHR ''.'' \<notin> set ''tree'' \<and> CHR ''.'' \<notin> set ''height''
   \<and> map_of MODEL_MAPPING ''tree'' = Some ''treemap_tree''
   \<and> filterToSql anyNumberIsLength (Obj [(''tree.height'', Num ''1'')]) =
       Inr ''(\"treemap_tree\".\"height\" = 1)''
   \<and> filterToSql anyNumberIsLength (Obj [(''tree.height'', Obj [(''IS'', Num ''1'')])]) =
       Inr ''(\"treemap_tree\".\"height\" = 1)''"
proof -
  note th = shorthand_is_explicit_IS
    [of "Num ''1''" anyNumberIsLength "''tree''" "''height''" "''treemap_tree''" "''1''"]
  have e: "filterToSql anyNumberIsLength (Obj [(''tree.height'', Num ''1'')]) =
           filterToSql anyNumberIsLength (Obj [(''tree.height'', Obj [(''IS'', Num ''1'')])])"
    using th [THEN conjunct1] by simp
  have v: "filterToSql anyNumberIsLength (Obj [(''tree.height'', Num ''1'')]) =
             Inr ''(\"treemap_tree\".\"height\" = 1)''"
    using th [THEN conjunct2] by (simp add: MODEL_MAPPING_def)
  have w: "filterToSql anyNumberIsLength (Obj [(''tree.height'', Obj [(''IS'', Num ''1'')])]) =
             Inr ''(\"treemap_tree\".\"height\" = 1)''"
    using v unfolding e .
  have m: "map_of MODEL_MAPPING ''tree'' = Some ''treemap_tree''"
    by (simp add: MODEL_MAPPING_def)
  show ?thesis using v w m by simp
qed

text \<open>
  C9. For a field name \<open>m.c\<close> with a model \<open>m\<close> of \<open>MODEL_MAPPING\<close>, a predicate set that
  maps the field to the empty predicate object \<open>{}\<close> does not fail: validation accepts
  the empty key set, the list of (matcher, literal) pairs is empty, and the clause of
  the field is \<open>()\<close>.
\<close>

theorem empty_predicate_compiles_to_parentheses:
  assumes "m \<in> set (map fst MODEL_MAPPING)" and "CHR ''.'' \<notin> set c"
  shows "validatePredicate (Obj []) = Inr ()
       \<and> predicateToFilterObjects (Obj []) = Inr []
       \<and> fieldNameAndPredicateToSql (m @ CHR ''.'' # c) (Obj []) = Inr ''()''
       \<and> filterToSql lengthWalk (Obj [(m @ CHR ''.'' # c, Obj [])]) = Inr ''()''"
proof -
  have v: "validatePredicate (Obj []) = Inr ()"
    by (simp add: validatePredicate_def keys_def)
  then have p: "predicateToFilterObjects (Obj []) = Inr []"
    by (simp add: predicateToFilterObjects_def)
  from assms(1) obtain t where "map_of MODEL_MAPPING m = Some t" and "CHR ''.'' \<notin> set m"
    by (auto simp: MODEL_MAPPING_def)
  then have "fieldNameToColumnName (m @ CHR ''.'' # c) =
      Inr (''\"'' @ t @ ''\".\"'' @ sanitizeSqlString c @ ''\"'')"
    using assms(2) by (simp add: fieldName_resolves)
  then have f: "fieldNameAndPredicateToSql (m @ CHR ''.'' # c) (Obj []) = Inr ''()''"
    by (simp add: fieldNameAndPredicateToSql_def p)
  then have "filterToSql lengthWalk (Obj [(m @ CHR ''.'' # c, Obj [])]) = Inr ''()''"
    by (simp add: objectToSql_def walkOf_dotted_key)
  with v p f show ?thesis by simp
qed

theorem empty_predicate_compiles_to_parentheses_witness:
  "''tree'' \<in> set (map fst MODEL_MAPPING) \<and> CHR ''.'' \<notin> set ''height''
   \<and> filterToSql anyNumberIsLength (Obj [(''tree.height'', Obj [])]) = Inr ''()''"
proof -
  have a: "''tree'' \<in> set (map fst MODEL_MAPPING)" by (simp add: MODEL_MAPPING_def)
  have b: "CHR ''.'' \<notin> set ''height''" by simp
  show ?thesis
    using a b empty_predicate_compiles_to_parentheses [OF a b, of anyNumberIsLength] by simp
qed

section \<open>Predicate validation\<close>

text \<open>
  C6, as stated: any unknown key fails with the error that lists the supported keys.
  The keys are checked in order, each first for being known and then for its
  combinations: in \<open>{"IS": 1, "WILLBE": 2}\<close> the key \<open>IS\<close> comes first, and the error
  is the one about the combinations of \<open>IS\<close>.
\<close>

theorem unknown_key_after_known_key_gives_combination_error:
  "validatePredicate (Obj [(''IS'', Num ''1''), (''WILLBE'', Num ''2'')]) =
     Inl (Error ''A predicate with keys IS,WILLBE is not valid because the predicate key IS can only be combined with the following keys: '')"
  by (simp add: validatePredicate_def keys_def validateKey_def lookupTable_def PREDICATE_TYPES_def
      combinationError_def)

text \<open>
  A key that names a member of \<open>Object.prototype\<close> is not a key of \<open>PREDICATE_TYPES\<close>,
  but the lookup finds the inherited member and the validation lets the key pass.
\<close>

lemma validate_inherited_key: "validatePredicate (Obj [(''constructor'', Num ''1'')]) = Inr ()"
  by (simp add: validatePredicate_def keys_def validateKey_def lookupTable_def PREDICATE_TYPES_def
      objectPrototypeMembers_def)

text \<open>
  C6, amended: for a predicate object none of whose keys names a member of
  \<open>Object.prototype\<close>, validation succeeds if and only if every key is a supported
  predicate key and every two distinct keys are combinable, the only such pair being
  \<open>MIN\<close> with \<open>MAX\<close>; a predicate with the two keys \<open>IN\<close> and \<open>IS\<close> fails with the
  combination error of its first key, whatever the values; a predicate whose first key
  is unknown fails with the error that lists the supported keys; and a predicate whose
  first key is supported and which holds an unknown key fails with the combination
  error of its first key.
\<close>

theorem validatePredicate_accepts_combinable_keys:
  "((\<forall>k\<in>set (map fst kvs). k \<notin> set objectPrototypeMembers) \<longrightarrow>
      (validatePredicate (Obj kvs) = Inr ()) =
        ((\<forall>k\<in>set (map fst kvs). specSupportedKey k)
         \<and> (\<forall>k\<in>set (map fst kvs). \<forall>k'\<in>set (map fst kvs). k \<noteq> k' \<longrightarrow> specCombinable k k')))
   \<and> validatePredicate (Obj [(''IN'', a), (''IS'', b)]) =
        Inl (combinationError [''IN'', ''IS''] ''IN'' [])
   \<and> validatePredicate (Obj [(''IS'', b), (''IN'', a)]) =
        Inl (combinationError [''IS'', ''IN''] ''IS'' [])
   \<and> (\<not> specSupportedKey u \<and> u \<notin> set objectPrototypeMembers \<longrightarrow>
        validatePredicate (Obj ((u, v) # rest)) = Inl (unknownKeyError u))
   \<and> (specSupportedKey k \<and> \<not> specSupportedKey u \<and> u \<in> set (map fst rest) \<longrightarrow>
        (\<exists>allowed. validatePredicate (Obj ((k, v) # rest)) =
           Inl (combinationError (k # map fst rest) k allowed)))"
proof -
  have iff: "(validatePredicate (Obj kvs) = Inr ()) =
        ((\<forall>k\<in>set (map fst kvs). specSupportedKey k)
         \<and> (\<forall>k\<in>set (map fst kvs). \<forall>k'\<in>set (map fst kvs). k \<noteq> k' \<longrightarrow> specCombinable k k'))"
    if "\<forall>k\<in>set (map fst kvs). k \<notin> set objectPrototypeMembers"
  proof -
    have "(validatePredicate (Obj kvs) = Inr ()) =
            (\<forall>k\<in>set (map fst kvs). validateKey (map fst kvs) k = Inr ())"
      by (simp add: validatePredicate_def keys_def eachResult_ok)
    also have "\<dots> = (\<forall>k\<in>set (map fst kvs). specSupportedKey k
                      \<and> (\<forall>k'\<in>set (map fst kvs). k \<noteq> k' \<longrightarrow> specCombinable k k'))"
      using that validateKey_ok by blast
    finally show ?thesis by blast
  qed
  have inis: "validatePredicate (Obj [(''IN'', a), (''IS'', b)]) =
        Inl (combinationError [''IN'', ''IS''] ''IN'' [])"
    by (simp add: validatePredicate_def keys_def validateKey_def lookupTable_def PREDICATE_TYPES_def)
  have isin: "validatePredicate (Obj [(''IS'', b), (''IN'', a)]) =
        Inl (combinationError [''IS'', ''IN''] ''IS'' [])"
    by (simp add: validatePredicate_def keys_def validateKey_def lookupTable_def PREDICATE_TYPES_def)
  have unk: "validatePredicate (Obj ((u, v) # rest)) = Inl (unknownKeyError u)"
    if "\<not> specSupportedKey u" "u \<notin> set objectPrototypeMembers"
    using that by (simp add: validatePredicate_def keys_def validateKey_def lookup_predicate_absent)
  show ?thesis
    using iff inis isin unk supported_first_key_with_unknown_key [of k u rest v] by blast
qed

theorem validatePredicate_accepts_combinable_keys_witness:
  "''MIN'' \<notin> set objectPrototypeMembers \<and> ''MAX'' \<notin> set objectPrototypeMembers
   \<and> specSupportedKey ''MIN'' \<and> specSupportedKey ''MAX'' \<and> specCombinable ''MIN'' ''MAX''
   \<and> validatePredicate (Obj [(''MIN'', Num ''1''), (''MAX'', Num ''2'')]) = Inr ()
   \<and> \<not> specSupportedKey ''WILLBE'' \<and> ''WILLBE'' \<notin> set objectPrototypeMembers
   \<and> validatePredicate (Obj [(''WILLBE'', Num ''1'')]) =
       Inl (Error ''Predicates support the following keys: IS,IN,LIKE,MIN,MAX not WILLBE'')"
proof -
  note th = validatePredicate_accepts_combinable_keys
    [of "[(''MIN'', Num ''1''), (''MAX'', Num ''2'')]" "Num ''1''" "Num ''2''" "''WILLBE''" "Num ''1''" "[]" "''IS''"]
  have a: "\<forall>k\<in>set (map fst [(''MIN'', Num ''1''), (''MAX'', Num ''2'')]). k \<notin> set objectPrototypeMembers"
    by (simp add: objectPrototypeMembers_def)
  have b: "\<not> specSupportedKey ''WILLBE''" "''WILLBE'' \<notin> set objectPrototypeMembers"
    by (simp_all add: specSupportedKey_def objectPrototypeMembers_def)
  have c: "validatePredicate (Obj [(''MIN'', Num ''1''), (''MAX'', Num ''2'')]) = Inr ()"
    using th [THEN conjunct1] a by (simp add: specSupportedKey_def specCombinable_def)
  have d: "validatePredicate (Obj [(''WILLBE'', Num ''1'')]) = Inl (unknownKeyError ''WILLBE'')"
    using th [THEN conjunct2, THEN conjunct2, THEN conjunct2, THEN conjunct1] b by simp
  have e: "''MIN'' \<notin> set objectPrototypeMembers" "''MAX'' \<notin> set objectPrototypeMembers"
    "specSupportedKey ''MIN''" "specSupportedKey ''MAX''" "specCombinable ''MIN'' ''MAX''"
    by (simp_all add: objectPrototypeMembers_def specSupportedKey_def specCombinable_def)
  show ?thesis using b c d e by (simp add: unknownKeyError_def PREDICATE_TYPES_def)
qed

section \<open>Combinators\<close>

text \<open>
  C7, as stated: the clause of the inner filter is itself in parentheses, so that a
  combinator with one inner filter always yields \<open>((X))\<close>. The empty predicate set \<open>{}\<close>
  compiles to the empty clause, which has no parentheses: \<open>["OR", {}]\<close> yields \<open>()\<close>.
\<close>

theorem single_empty_filter_gives_one_pair_of_parentheses:
  "filterToSql anyNumberIsLength (Obj []) = Inr ''''
   \<and> filterToSql anyNumberIsLength (Arr [Str ''OR'', Obj []]) = Inr ''()''"
  by code_simp

text \<open>
  C7, amended. For a combinator array \<open>[op, F]\<close> with one inner filter \<open>F\<close> that compiles
  to the clause \<open>C\<close>, the result is \<open>(C)\<close>: one pair of parentheses is added. An inner
  filter that is a combinator, or a predicate set of one field not named \<open>length\<close>,
  compiles to a clause \<open>(X)\<close> in parentheses, and the result is then \<open>((X))\<close>; the
  empty predicate set compiles to the empty clause, and the result is then \<open>()\<close>.
\<close>

theorem single_filter_combinator_adds_parentheses:
  assumes "op = Str ''AND'' \<or> op = Str ''OR''" and "filterToSql lengthWalk F = Inr C"
  shows "arrayToSql lengthWalk [op, F] = Inr (''('' @ C @ '')'')
       \<and> filterToSql lengthWalk (Arr [op, F]) = Inr (''('' @ C @ '')'')
       \<and> ((\<exists>k v. F = Obj [(k, v)] \<and> k \<noteq> ''length'') \<or> (\<exists>a. F = Arr a) \<longrightarrow>
            (\<exists>X. C = ''('' @ X @ '')''
                 \<and> filterToSql lengthWalk (Arr [op, F]) = Inr (''(('' @ X @ ''))'')))
       \<and> (F = Obj [] \<longrightarrow> C = [] \<and> filterToSql lengthWalk (Arr [op, F]) = Inr ''()'')"
proof -
  have r: "arrayToSql lengthWalk [op, F] = Inr (''('' @ C @ '')'')"
    using assms by auto
  then have r': "filterToSql lengthWalk (Arr [op, F]) = Inr (''('' @ C @ '')'')"
    by simp
  have p: "\<exists>X. C = ''('' @ X @ '')''"
    if "(\<exists>k v. F = Obj [(k, v)] \<and> k \<noteq> ''length'') \<or> (\<exists>a. F = Arr a)"
    using that assms(2) single_field_parens arrayToSql_parens by blast
  have e: "C = []" if "F = Obj []"
    using that assms(2) by (simp add: objectToSql_def walkOf_empty)
  show ?thesis using r r' p e by auto
qed

theorem single_filter_combinator_adds_parentheses_witness:
  "(Str ''OR'' = Str ''AND'' \<or> Str ''OR'' = Str ''OR'')
   \<and> filterToSql anyNumberIsLength (Obj [(''tree.height'', Obj [(''MIN'', Num ''1'')])]) =
       Inr ''(\"treemap_tree\".\"height\" >= 1)''
   \<and> filterToSql anyNumberIsLength
        (Arr [Str ''OR'', Obj [(''tree.height'', Obj [(''MIN'', Num ''1'')])]]) =
       Inr ''((\"treemap_tree\".\"height\" >= 1))''"
proof -
  have a: "Str ''OR'' = Str ''AND'' \<or> Str ''OR'' = Str ''OR''" by simp
  have b: "filterToSql anyNumberIsLength (Obj [(''tree.height'', Obj [(''MIN'', Num ''1'')])]) =
             Inr ''(\"treemap_tree\".\"height\" >= 1)''"
    by code_simp
  have c: "filterToSql anyNumberIsLength
             (Arr [Str ''OR'', Obj [(''tree.height'', Obj [(''MIN'', Num ''1'')])]]) =
             Inr (''('' @ ''(\"treemap_tree\".\"height\" >= 1)'' @ '')'')"
    using single_filter_combinator_adds_parentheses [OF a b] by blast
  show ?thesis using a b c by simp
qed

section \<open>Entry points\<close>

text \<open>
  C8. For every non-empty filter text, \<open>resolveFilterTables\<close> returns the table list of
  \<open>tree\<close> if the text holds \<open>tree.\<close> or \<open>species.\<close> at any position, and the table list of
  \<open>plot\<close> otherwise.
\<close>

theorem resolveFilterTables_looks_for_tree_or_species:
  assumes "s \<noteq> []"
  shows "resolveFilterTables config (Str s) =
           Inr (if sublist ''tree.'' s \<or> sublist ''species.'' s then tree config else plot config)"
  using assms by (simp add: resolveFilterTables_def matchTreeOrSpecies_sublist)

theorem resolveFilterTables_looks_for_tree_or_species_witness:
  "''{\"plot.owner\": \"tree.x\"}'' \<noteq> []
   \<and> resolveFilterTables \<lparr> tree = [''treemap_plot'', ''treemap_tree''], plot = [''treemap_plot''] \<rparr>
        (Str ''{\"plot.owner\": \"tree.x\"}'') = Inr [''treemap_plot'', ''treemap_tree'']"
proof -
  have a: "''{\"plot.owner\": \"tree.x\"}'' \<noteq> []" by simp
  have b: "matchTreeOrSpecies ''{\"plot.owner\": \"tree.x\"}''" by simp
  show ?thesis
    using a b resolveFilterTables_looks_for_tree_or_species
      [OF a, of "\<lparr> tree = [''treemap_plot'', ''treemap_tree''], plot = [''treemap_plot''] \<rparr>"]
    by (simp add: matchTreeOrSpecies_sublist)
qed

text \<open>
  C10. For a falsy argument (\<open>undefined\<close>, \<open>null\<close>, the empty string),
  \<open>resolveFilterTables\<close> throws an error and returns no table list, while the exported
  function of the compiler returns the empty string.
\<close>

theorem falsy_input_throws_in_resolveFilterTables:
  assumes "\<not> truthy s"
  shows "resolveFilterTables config s =
           Inl (Error ''A null, undefined, or empty filter string cannot be converted to SQL'')
       \<and> (\<forall>t. resolveFilterTables config s \<noteq> Inr t)
       \<and> filterStringToSql lengthWalk parse s = Inr ''''"
  using assms by (simp add: resolveFilterTables_def filterStringToSql_def)

theorem falsy_input_throws_in_resolveFilterTables_witness:
  "\<not> truthy Undefined \<and> \<not> truthy Null \<and> \<not> truthy (Str '''')
   \<and> resolveFilterTables \<lparr> tree = [''treemap_plot'', ''treemap_tree''], plot = [''treemap_plot''] \<rparr>
        Undefined =
        Inl (Error ''A null, undefined, or empty filter string cannot be converted to SQL'')
   \<and> resolveFilterTables \<lparr> tree = [''treemap_plot'', ''treemap_tree''], plot = [''treemap_plot''] \<rparr>
        Null =
        Inl (Error ''A null, undefined, or empty filter string cannot be converted to SQL'')
   \<and> resolveFilterTables \<lparr> tree = [''treemap_plot'', ''treemap_tree''], plot = [''treemap_plot''] \<rparr>
        (Str '''') =
        Inl (Error ''A null, undefined, or empty filter string cannot be converted to SQL'')
   \<and> filterStringToSql anyNumberIsLength (\<lambda>text. Inl SyntaxError) Undefined = Inr ''''
   \<and> filterStringToSql anyNumberIsLength (\<lambda>text. Inl SyntaxError) Null = Inr ''''
   \<and> filterStringToSql anyNumberIsLength (\<lambda>text. Inl SyntaxError) (Str '''') = Inr ''''"
proof -
  have a: "\<not> truthy Undefined" and b: "\<not> truthy Null" and c: "\<not> truthy (Str '''')"
    by simp_all
  note u = falsy_input_throws_in_resolveFilterTables [OF a,
      of "\<lparr> tree = [''treemap_plot'', ''treemap_tree''], plot = [''treemap_plot''] \<rparr>"
         anyNumberIsLength "\<lambda>text. Inl SyntaxError"]
  note n = falsy_input_throws_in_resolveFilterTables [OF b,
      of "\<lparr> tree = [''treemap_plot'', ''treemap_tree''], plot = [''treemap_plot''] \<rparr>"
         anyNumberIsLength "\<lambda>text. Inl SyntaxError"]
  note e = falsy_input_throws_in_resolveFilterTables [OF c,
      of "\<lparr> tree = [''treemap_plot'', ''treemap_tree''], plot = [''treemap_plot''] \<rparr>"
         anyNumberIsLength "\<lambda>text. Inl SyntaxError"]
  show ?thesis using a b c u n e by blast
qed

end
